theory Spec2Isabelle
  imports Main
begin

section \<open>JavaScript values used by the chat front ends\<close>

text \<open>
  Strings are lists of code units below 256. \<open>String.prototype.trim\<close> removes the
  white space and line terminator code units from both ends; in this range they are
  TAB, LF, VT, FF, CR, SPACE and NBSP.
\<close>

definition isWhiteSpace :: "char \<Rightarrow> bool" where
  "isWhiteSpace c = (c \<in> set [CHR 0x09, CHR 0x0A, CHR 0x0B, CHR 0x0C, CHR 0x0D, CHR 0x20, CHR 0xA0])"

definition trim :: "string \<Rightarrow> string" where
  "trim s = rev (dropWhile isWhiteSpace (rev (dropWhile isWhiteSpace s)))"

text \<open>
  An absent property reads as \<open>undefined\<close>: a property that holds a string is a
  \<open>string option\<close>. \<open>undefined\<close> and the empty string are the falsy ones, and
  \<open>a || b\<close> is \<open>a\<close> when \<open>a\<close> is truthy and \<open>b\<close> otherwise.
\<close>

definition truthy :: "string option \<Rightarrow> bool" where
  "truthy v = (case v of None \<Rightarrow> False | Some s \<Rightarrow> s \<noteq> [])"

definition or_else :: "string option \<Rightarrow> string option \<Rightarrow> string option" where
  "or_else a b = (if truthy a then a else b)"

text \<open>
  \<open>Date.now()\<close> is a count of milliseconds and an array index is a natural number;
  \<open>toString\<close> and a template literal print either in decimal.
\<close>

definition digit_char :: "nat \<Rightarrow> char" where
  "digit_char d = ''0123456789'' ! d"

fun toString :: "nat \<Rightarrow> string" where
  "toString n = (if n < 10 then [digit_char n] else toString (n div 10) @ [digit_char (n mod 10)])"

declare toString.simps [simp del]

text \<open>
  The readings of \<open>Date.now()\<close> during one call of an operation, one for each place of
  the code that reads it: \<open>now k\<close> is what the read at place \<open>k\<close> returns. The places
  are numbered below where each operation is defined. Nothing is assumed about the order
  in time of the reads, some of which sit in state updaters that React runs later, nor
  about the values: the clock may stand still or step back.
\<close>

type_synonym clock = "nat \<Rightarrow> nat"

text \<open>
  What a rejected request or a failed property read throws. axios rejects on a transport
  failure and on every status outside 2xx; reading a property of \<open>null\<close> or
  \<open>undefined\<close> is a \<open>TypeError\<close>; \<open>response.json()\<close> rejects with a
  \<open>SyntaxError\<close> on a body that is not JSON.
\<close>

datatype js_error = NetworkError | ServerError nat | TypeError | SyntaxError

text \<open>
  \<open>try { body } catch (e) { handler } finally { fin }\<close> over a state: the body's
  state changes made before it throws stay; an exception of the handler propagates;
  \<open>fin\<close> always runs. The first component is the exception that leaves the statement.
\<close>

definition try_catch_finally ::
  "('s \<Rightarrow> js_error option \<times> 's) \<Rightarrow> (js_error \<Rightarrow> 's \<Rightarrow> js_error option \<times> 's) \<Rightarrow> ('s \<Rightarrow> 's)
     \<Rightarrow> 's \<Rightarrow> js_error option \<times> 's" where
  "try_catch_finally body handler fin s =
     (case body s of
        (None, s1) \<Rightarrow> (None, fin s1)
      | (Some e, s1) \<Rightarrow> (case handler e s1 of (r, s2) \<Rightarrow> (r, fin s2)))"

section \<open>The React chat component: data\<close>

record qaItem =
  qa_id :: string
  qa_question :: "string option"
  qa_answer :: "string option"
  qa_source :: string

record message =
  m_id :: "string option"
  m_text :: "string option"
  m_isUser :: bool
  m_question :: "string option"
  m_context :: "string list option"
  m_isQAContainer :: bool
  m_qaItems :: "qaItem list option"
  m_showDownload :: bool
  m_downloadOnly :: bool

text \<open>The object literal \<open>{ text: t, isUser: u }\<close>: every other property absent.\<close>

definition plain_message :: "string \<Rightarrow> bool \<Rightarrow> message" where
  "plain_message t u =
     \<lparr>m_id = None, m_text = Some t, m_isUser = u, m_question = None, m_context = None,
      m_isQAContainer = False, m_qaItems = None, m_showDownload = False, m_downloadOnly = False\<rparr>"

record js_file =
  file_name :: string

text \<open>The bodies of the backend's answers (\<open>response.data\<close>), where it sends an object.\<close>

record chat_data =
  c_response :: "string option"
  c_context :: "string list option"

record upload_item =
  u_question :: "string option"
  u_response :: "string option"
  u_source :: "string option"

record upload_data =
  u_status :: "string option"
  u_responses :: "upload_item list option"
  u_message :: "string option"

record feedback_response =
  fr_status :: "string option"

text \<open>
  The argument of \<open>handleFeedbackSubmit\<close> and the body it posts, which spreads the
  argument and adds three properties.
\<close>

record feedbackData =
  messageId :: string
  feedbackType :: string
  editedAnswer :: string
  relevance :: nat
  accuracy :: nat

record completeData = feedbackData +
  original_query :: "string option"
  original_answer :: "string option"
  context_used :: "string list"

datatype request =
    PostChat string
  | PostUpload string
  | PostFeedback completeData

text \<open>
  The component's state (the five \<open>useState\<close> cells) and what it has done to the world:
  the requests issued, the alerts shown, the first argument of each \<open>console.error\<close>.
  \<open>render_error\<close> is the exception of a state updater that threw when React ran it: it
  is thrown in the render, outside every \<open>try\<close> of the component, and the update of that
  updater is lost.
\<close>

record app_state =
  messages :: "message list"
  input :: string
  isProcessing :: bool
  selectedFile :: "js_file option"
  feedbackVisibility :: "string \<rightharpoonup> bool"
  net_log :: "request list"
  alerts :: "string list"
  console_errors :: "string list"
  render_error :: "js_error option"

text \<open>\<open>setMessages(prev => [...prev, m])\<close>\<close>

definition append_message :: "message \<Rightarrow> app_state \<Rightarrow> app_state" where
  "append_message m st = st\<lparr>messages := messages st @ [m]\<rparr>"

text \<open>
  The outcome of an awaited \<open>axios.post\<close>: the exception it rejects with, or the body of
  the response, \<open>None\<close> when the body is \<open>null\<close>.
\<close>

type_synonym 'a outcome = "js_error + 'a option"

section \<open>The React chat component: operations\<close>

definition handleFileChange :: "js_file option \<Rightarrow> app_state \<Rightarrow> app_state" where
  "handleFileChange f st = (case f of None \<Rightarrow> st | Some x \<Rightarrow> st\<lparr>selectedFile := Some x\<rparr>)"

definition console_error :: "string \<Rightarrow> app_state \<Rightarrow> app_state" where
  "console_error s st = st\<lparr>console_errors := console_errors st @ [s]\<rparr>"

definition alert :: "string \<Rightarrow> app_state \<Rightarrow> app_state" where
  "alert s st = st\<lparr>alerts := alerts st @ [s]\<rparr>"

definition axios_post :: "request \<Rightarrow> app_state \<Rightarrow> app_state" where
  "axios_post r st = st\<lparr>net_log := net_log st @ [r]\<rparr>"

subsection \<open>sendMessage\<close>

definition assistant_reply :: "string \<Rightarrow> string \<Rightarrow> chat_data \<Rightarrow> message" where
  "assistant_reply messageId' userMessage d =
     \<lparr>m_id = Some messageId',
      m_text = or_else (c_response d) (Some ''I couldn't process that request.''),
      m_isUser = False,
      m_question = Some userMessage,
      m_context = Some (case c_context d of Some c \<Rightarrow> c | None \<Rightarrow> []),
      m_isQAContainer = False, m_qaItems = None, m_showDownload = False, m_downloadOnly = False\<rparr>"

definition chat_error_message :: "string \<Rightarrow> message" where
  "chat_error_message i =
     (plain_message ''Sorry, there was an error processing your request.'' False)\<lparr>m_id := Some i\<rparr>"

text \<open>
  The \<open>try\<close> block: the request, and on a response the clock is read for the id (place
  0) and \<open>setMessages\<close> is given an updater. The updater is what reads
  \<open>response.data.response\<close> and \<open>response.data.context\<close>, when React runs it and not
  inside the \<open>try\<close>: on a \<open>null\<close> body it throws there, so no message is appended, the
  \<open>try\<close> block ends normally and the \<open>catch\<close> block does not run.
\<close>

definition sendMessage_try ::
  "string \<Rightarrow> chat_data outcome \<Rightarrow> clock \<Rightarrow> app_state \<Rightarrow> js_error option \<times> app_state" where
  "sendMessage_try userMessage post now st =
     (let st1 = axios_post (PostChat userMessage) st in
      case post of
        Inl e \<Rightarrow> (Some e, st1)
      | Inr None \<Rightarrow> (None, st1\<lparr>render_error := Some TypeError\<rparr>)
      | Inr (Some d) \<Rightarrow>
          (None, append_message (assistant_reply (toString (now 0)) userMessage d) st1))"

text \<open>
  The \<open>catch\<close> block; the updater of its fallback message reads the clock (place 0 again:
  the \<open>try\<close> block has not read it when the request is rejected).
\<close>

definition sendMessage_catch :: "clock \<Rightarrow> js_error \<Rightarrow> app_state \<Rightarrow> js_error option \<times> app_state" where
  "sendMessage_catch now e st =
     (None, append_message (chat_error_message (toString (now 0)))
              (console_error ''Error sending message:'' st))"

definition sendMessage :: "chat_data outcome \<Rightarrow> clock \<Rightarrow> app_state \<Rightarrow> js_error option \<times> app_state" where
  "sendMessage post now st =
     (if trim (input st) = [] then (None, st)
      else
        let userMessage = trim (input st);
            st1 = (append_message (plain_message userMessage True) st)
                    \<lparr>input := [], isProcessing := True\<rparr>
        in try_catch_finally (sendMessage_try userMessage post now) (sendMessage_catch now)
             (\<lambda>s. s\<lparr>isProcessing := False\<rparr>) st1)"

subsection \<open>uploadFile\<close>

definition upload_status_message :: "js_file \<Rightarrow> message" where
  "upload_status_message f =
     plain_message (''Uploading and processing '' @ file_name f @ ''...'') True"

definition file_success_message :: "nat \<Rightarrow> message" where
  "file_success_message t =
     (plain_message ''File processed successfully! Here are the responses to your questions:'' False)
       \<lparr>m_id := Some (''file-'' @ toString t)\<rparr>"

text \<open>
  The callback of \<open>response.data.responses.map\<close>: it reads the clock once for each
  item, \<open>t\<close> here, and \<open>item.source || "unknown"\<close> replaces a falsy source.
\<close>

definition make_qaItem :: "nat \<Rightarrow> nat \<Rightarrow> upload_item \<Rightarrow> qaItem" where
  "make_qaItem t index item =
     \<lparr>qa_id = ''qa-item-'' @ toString t @ ''-'' @ toString index,
      qa_question = u_question item,
      qa_answer = u_response item,
      qa_source = (case or_else (u_source item) (Some ''unknown'') of Some x \<Rightarrow> x | None \<Rightarrow> [])\<rparr>"

definition make_qaItems :: "clock \<Rightarrow> nat \<Rightarrow> upload_item list \<Rightarrow> qaItem list" where
  "make_qaItems now k rs =
     map (\<lambda>(index, item). make_qaItem (now (k + index)) index item) (enumerate 0 rs)"

definition qa_message :: "nat \<Rightarrow> qaItem list \<Rightarrow> message" where
  "qa_message t items =
     \<lparr>m_id = Some (''qa-'' @ toString t), m_text = None, m_isUser = False, m_question = None,
      m_context = None, m_isQAContainer = True, m_qaItems = Some items,
      m_showDownload = False, m_downloadOnly = False\<rparr>"

definition download_message :: message where
  "download_message = (plain_message [] False)\<lparr>m_showDownload := True, m_downloadOnly := True\<rparr>"

text \<open>
  The \<open>try\<close> block. \<open>response.data.status\<close> and \<open>response.data.responses.map\<close> are
  read in the block itself and throw there on a \<open>null\<close> body and on a missing list, the
  latter after the confirmation was handed to \<open>setMessages\<close>. The clock is read at place
  0 for the confirmation's id (in its updater), at place 1 for the container's id and at
  place \<open>2 + index\<close> for the item at \<open>index\<close>.
\<close>

definition uploadFile_try ::
  "js_file \<Rightarrow> upload_data outcome \<Rightarrow> clock \<Rightarrow> app_state \<Rightarrow> js_error option \<times> app_state" where
  "uploadFile_try f post now st =
     (let st1 = append_message (upload_status_message f) st;
          st2 = axios_post (PostUpload (file_name f)) st1
      in case post of
           Inl e \<Rightarrow> (Some e, st2)
         | Inr None \<Rightarrow> (Some TypeError, st2)
         | Inr (Some d) \<Rightarrow>
             if u_status d = Some ''success'' then
               (let st3 = append_message (file_success_message (now 0)) st2
                in case u_responses d of
                     None \<Rightarrow> (Some TypeError, st3)
                   | Some rs \<Rightarrow>
                       (let qaMessage = qa_message (now 1) (make_qaItems now 2 rs);
                            st4 = append_message qaMessage st3;
                            st5 = append_message download_message st4
                        in (None, st5\<lparr>selectedFile := None\<rparr>)))
             else
               (let st3 = append_message
                            (plain_message
                               (case or_else (u_message d) (Some ''File processed with some issues.'') of
                                  Some x \<Rightarrow> x | None \<Rightarrow> []) False) st2
                in (None, st3\<lparr>selectedFile := None\<rparr>)))"

definition uploadFile_catch :: "js_error \<Rightarrow> app_state \<Rightarrow> js_error option \<times> app_state" where
  "uploadFile_catch e st =
     (None, append_message (plain_message ''Error processing the file. Please try again.'' False)
              (console_error ''Error uploading file:'' st))"

definition uploadFile :: "upload_data outcome \<Rightarrow> clock \<Rightarrow> app_state \<Rightarrow> js_error option \<times> app_state" where
  "uploadFile post now st =
     (case selectedFile st of
        None \<Rightarrow> (None, st)
      | Some f \<Rightarrow>
          try_catch_finally (uploadFile_try f post now) uploadFile_catch
            (\<lambda>s. s\<lparr>isProcessing := False\<rparr>) (st\<lparr>isProcessing := True\<rparr>))"

subsection \<open>handleFeedbackSubmit\<close>

text \<open>
  The \<open>for ... of\<close> loop over the messages: the first QA container that holds an item
  with the id ends the loop and gives \<open>originalQuery\<close> and \<open>originalAnswer\<close>, which
  keep their initial values when no container has one. An array is truthy, empty or not.
\<close>

fun qa_loop :: "message list \<Rightarrow> string \<Rightarrow> string option \<times> string option
                  \<Rightarrow> string option \<times> string option" where
  "qa_loop [] mid acc = acc"
| "qa_loop (msg # rest) mid acc =
     (if m_isQAContainer msg then
        (case m_qaItems msg of
           None \<Rightarrow> qa_loop rest mid acc
         | Some items \<Rightarrow>
             (case find (\<lambda>item. qa_id item = mid) items of
                Some qaItem \<Rightarrow> (qa_question qaItem, qa_answer qaItem)
              | None \<Rightarrow> qa_loop rest mid acc))
      else qa_loop rest mid acc)"

definition resolve_original ::
  "message list \<Rightarrow> string \<Rightarrow> message option \<times> string option \<times> string option" where
  "resolve_original msgs mid =
     (let message = find (\<lambda>msg. m_id msg = Some mid) msgs in
      case message of
        None \<Rightarrow> (message, qa_loop msgs mid (Some [], Some []))
      | Some m \<Rightarrow>
          (message, or_else (m_question m) (or_else (m_text m) (Some [])),
                    or_else (m_text m) (Some [])))"

definition make_completeData ::
  "feedbackData \<Rightarrow> string option \<Rightarrow> string option \<Rightarrow> message option \<Rightarrow> completeData" where
  "make_completeData fd originalQuery originalAnswer message =
     feedbackData.extend fd
       (completeData.fields originalQuery originalAnswer
          (case message of
             None \<Rightarrow> []
           | Some m \<Rightarrow> (case m_context m of Some c \<Rightarrow> c | None \<Rightarrow> [])))"

definition handleFeedbackSubmit_try ::
  "feedbackData \<Rightarrow> feedback_response outcome \<Rightarrow> app_state \<Rightarrow> js_error option \<times> app_state" where
  "handleFeedbackSubmit_try fd post st =
     (case resolve_original (messages st) (messageId fd) of
        (message, originalQuery, originalAnswer) \<Rightarrow>
          if \<not> truthy originalQuery \<and> \<not> truthy originalAnswer \<and> message = None then
            (None, alert ''Error processing feedback. Please try again.''
                     (console_error ''Could not find message or QA item for feedback'' st))
          else
            (let st1 = axios_post
                         (PostFeedback (make_completeData fd originalQuery originalAnswer message)) st
             in case post of
                  Inl e \<Rightarrow> (Some e, st1)
                | Inr None \<Rightarrow> (Some TypeError, st1)
                | Inr (Some r) \<Rightarrow>
                    if fr_status r = Some ''success'' then
                      (let st2 = alert ''Thank you for your feedback!'' st1
                       in (None, st2\<lparr>feedbackVisibility :=
                                       (feedbackVisibility st2)(messageId fd \<mapsto> False)\<rparr>))
                    else (None, st1)))"

definition handleFeedbackSubmit_catch :: "js_error \<Rightarrow> app_state \<Rightarrow> js_error option \<times> app_state" where
  "handleFeedbackSubmit_catch e st =
     (None, alert ''Failed to submit feedback. Please try again.''
              (console_error ''Error submitting feedback:'' st))"

definition handleFeedbackSubmit ::
  "feedbackData \<Rightarrow> feedback_response outcome \<Rightarrow> app_state \<Rightarrow> js_error option \<times> app_state" where
  "handleFeedbackSubmit fd post st =
     try_catch_finally (handleFeedbackSubmit_try fd post) handleFeedbackSubmit_catch (\<lambda>s. s) st"

definition toggleFeedback :: "string \<Rightarrow> app_state \<Rightarrow> app_state" where
  "toggleFeedback mid st =
     st\<lparr>feedbackVisibility := (feedbackVisibility st)(mid \<mapsto> feedbackVisibility st mid \<noteq> Some True)\<rparr>"

definition handleCancelFeedback :: "string \<Rightarrow> app_state \<Rightarrow> app_state" where
  "handleCancelFeedback mid st =
     st\<lparr>feedbackVisibility := (feedbackVisibility st)(mid \<mapsto> False)\<rparr>"

subsection \<open>FeedbackPanel\<close>

record panel_state =
  p_editedAnswer :: string
  p_error :: string

text \<open>
  \<open>handleSubmit\<close> of the panel shown for \<open>messageId\<close>; \<open>onFeedbackSubmit\<close> is the
  component's \<open>handleFeedbackSubmit\<close>, whose promise the panel does not await.
\<close>

definition handleSubmit ::
  "string \<Rightarrow> feedback_response outcome \<Rightarrow> panel_state \<times> app_state \<Rightarrow> panel_state \<times> app_state" where
  "handleSubmit mid post ps =
     (case ps of (p, st) \<Rightarrow>
        if trim (p_editedAnswer p) = [] then
          (p\<lparr>p_error := ''Please enter at least one word before submitting.''\<rparr>, st)
        else
          (let fd = \<lparr>messageId = mid, feedbackType = ''correction'',
                     editedAnswer = p_editedAnswer p, relevance = 5, accuracy = 5\<rparr>;
               st1 = snd (handleFeedbackSubmit fd post st)
           in (p\<lparr>p_editedAnswer := [], p_error := []\<rparr>, st1)))"

section \<open>The static page (script.js)\<close>

text \<open>
  An element built by \<open>createMessageElement\<close> or \<open>displayResponses\<close>: its class, the
  value given to its paragraph's \<open>textContent\<close>, and the text of its source tag if it
  has one.
\<close>

record element =
  e_class :: string
  e_text :: "string option"
  e_source_tag :: "string option"

text \<open>
  The page: the children of \<open>chatContainer\<close>, the notifications shown so far (text and
  type), the progress bar, and the names of the files posted to \<open>/upload\<close>.
\<close>

record page_state =
  chatContainer :: "element list"
  notifications :: "(string \<times> string) list"
  progressHidden :: bool
  progressWidth :: string
  fetch_log :: "string list"

definition createMessageElement :: "string \<Rightarrow> string option \<Rightarrow> string option \<Rightarrow> element" where
  "createMessageElement type text source =
     \<lparr>e_class = type, e_text = text,
      e_source_tag = (if type = ''response'' \<and> truthy source
                      then Some (''Source: '' @ (case source of Some x \<Rightarrow> x | None \<Rightarrow> []))
                      else None)\<rparr>"

definition showNotification :: "string \<Rightarrow> string \<Rightarrow> page_state \<Rightarrow> page_state" where
  "showNotification msg type pg = pg\<lparr>notifications := notifications pg @ [(msg, type)]\<rparr>"

text \<open>
  \<open>displayResponses\<close> starts two timers for each pair, at delays 0, 300, 300, 600, ...;
  they fire in that order, and the model appends the elements in that order.
\<close>

definition displayResponses :: "upload_item list option \<Rightarrow> page_state \<Rightarrow> page_state" where
  "displayResponses responses pg =
     (if responses = None \<or> responses = Some [] then
        pg\<lparr>chatContainer := chatContainer pg @
             [\<lparr>e_class = ''empty-message'',
               e_text = Some ''No questions found in the uploaded file. Please ensure your Excel file contains a \"questions\" column.'',
               e_source_tag = None\<rparr>]\<rparr>
      else
        pg\<lparr>chatContainer := chatContainer pg @
             concat (map (\<lambda>r. [createMessageElement ''question'' (u_question r) (Some ''User''),
                                createMessageElement ''response'' (u_response r)
                                  (or_else (u_source r) (Some ''AI Assistant''))])
                       (case responses of Some rs \<Rightarrow> rs | None \<Rightarrow> []))\<rparr>)"

text \<open>
  The test \<open>file.name.match(/\.(xlsx|xls)$/i)\<close>: the name ends in \<open>.xlsx\<close> or
  \<open>.xls\<close>, letters compared without case. Below 256 the flag \<open>i\<close> identifies a
  letter A to Z with its lower case and nothing else with a letter of the pattern.
\<close>

definition toLowerCase :: "char \<Rightarrow> char" where
  "toLowerCase c =
     (case map_of (zip ''ABCDEFGHIJKLMNOPQRSTUVWXYZ'' ''abcdefghijklmnopqrstuvwxyz'') c of
        Some l \<Rightarrow> l | None \<Rightarrow> c)"

definition ends_with_ci :: "string \<Rightarrow> string \<Rightarrow> bool" where
  "ends_with_ci suffix s =
     (length suffix \<le> length s \<and>
      map toLowerCase (drop (length s - length suffix) s) = suffix)"

definition matches_excel :: "string \<Rightarrow> bool" where
  "matches_excel name = (ends_with_ci ''.xlsx'' name \<or> ends_with_ci ''.xls'' name)"

definition thinkingMessage :: element where
  "thinkingMessage =
     createMessageElement ''response'' (Some ''Processing your questions. This may take a moment...'')
       (Some ''AI'')"

text \<open>
  \<open>handleFile\<close>, with the page as it is once the timers the call started have fired.
  \<open>emsg\<close> gives the \<open>message\<close> property of an exception, which the engine words.
  \<open>fetch\<close> rejects on a transport failure only.
\<close>

definition handleFile_try :: "upload_data outcome \<Rightarrow> page_state \<Rightarrow> js_error option \<times> page_state" where
  "handleFile_try post pg =
     (case post of
        Inl e \<Rightarrow> (Some e, pg)
      | Inr body \<Rightarrow>
          (let pg1 = pg\<lparr>chatContainer := remove1 thinkingMessage (chatContainer pg)\<rparr> in
           case body of
             None \<Rightarrow> (Some TypeError, pg1)
           | Some d \<Rightarrow>
               if u_status d = Some ''success'' then
                 (let pg2 = pg1\<lparr>progressWidth := ''100%''\<rparr>;
                      pg3 = displayResponses (u_responses d) pg2;
                      pg4 = showNotification ''File processed successfully!'' ''success'' pg3
                  in (None, pg4\<lparr>progressHidden := True, progressWidth := ''0%''\<rparr>))
               else
                 (let pg2 = showNotification
                              (''Error: '' @ (case u_message d of Some m \<Rightarrow> m | None \<Rightarrow> ''undefined''))
                              ''error'' pg1
                  in (None, pg2\<lparr>progressHidden := True, progressWidth := ''0%''\<rparr>))))"

definition handleFile_catch ::
  "(js_error \<Rightarrow> string) \<Rightarrow> js_error \<Rightarrow> page_state \<Rightarrow> js_error option \<times> page_state" where
  "handleFile_catch emsg e pg =
     (let pg1 = (if thinkingMessage \<in> set (chatContainer pg)
                 then pg\<lparr>chatContainer := remove1 thinkingMessage (chatContainer pg)\<rparr> else pg);
          pg2 = showNotification (''Error uploading file: '' @ emsg e) ''error'' pg1
      in (None, pg2\<lparr>progressHidden := True, progressWidth := ''0%''\<rparr>))"

definition handleFile ::
  "(js_error \<Rightarrow> string) \<Rightarrow> js_file \<Rightarrow> upload_data outcome \<Rightarrow> page_state
     \<Rightarrow> js_error option \<times> page_state" where
  "handleFile emsg f post pg =
     (if \<not> matches_excel (file_name f) then
        (None, showNotification ''Please upload an Excel file (.xlsx or .xls)'' ''error'' pg)
      else
        (let pg1 = pg\<lparr>chatContainer := [], progressHidden := False, progressWidth := ''30%''\<rparr>;
             pg2 = pg1\<lparr>chatContainer := chatContainer pg1 @ [thinkingMessage]\<rparr>;
             pg3 = pg2\<lparr>fetch_log := fetch_log pg2 @ [file_name f]\<rparr>
         in try_catch_finally (handleFile_try post) (handleFile_catch emsg) (\<lambda>s. s) pg3))"

section \<open>Reading the log\<close>

text \<open>The items of every QA container of the log, in the order of the log.\<close>

definition all_qaItems :: "message list \<Rightarrow> qaItem list" where
  "all_qaItems msgs =
     concat (map (\<lambda>m. if m_isQAContainer m
                        then (case m_qaItems m of Some items \<Rightarrow> items | None \<Rightarrow> [])
                        else []) msgs)"

text \<open>
  The renderer puts the control "Suggest a better answer" under a message of its regular
  branch (not a QA container) when \<open>!msg.isUser && !msg.downloadOnly && msg.id\<close>.
\<close>

definition feedback_eligible :: "message \<Rightarrow> bool" where
  "feedback_eligible msg =
     (\<not> m_isQAContainer msg \<and> \<not> m_isUser msg \<and> \<not> m_downloadOnly msg \<and> truthy (m_id msg))"

text \<open>Every id carried in the log: a message's own id, then the ids of its items.\<close>

definition assigned_ids :: "message list \<Rightarrow> string list" where
  "assigned_ids msgs =
     concat (map (\<lambda>m. (case m_id m of Some i \<Rightarrow> [i] | None \<Rightarrow> []) @
                        (case m_qaItems m of Some items \<Rightarrow> map qa_id items | None \<Rightarrow> [])) msgs)"

section \<open>A session's first state\<close>

text \<open>
  The state after the first render: the effect has seeded the welcome message, whose text
  is \<open>welcome\<close>, and nothing else has happened.
\<close>

definition init_state :: "string \<Rightarrow> app_state" where
  "init_state welcome =
     \<lparr>messages = [plain_message welcome False], input = [], isProcessing = False,
      selectedFile = None, feedbackVisibility = Map.empty, net_log = [], alerts = [],
      console_errors = [], render_error = None\<rparr>"

section \<open>Decimal printing and the ids built from it\<close>

lemma digit_char_inj:
  assumes "d < 10" "e < 10" "digit_char d = digit_char e"
  shows "d = e"
proof -
  have dist: "distinct ''0123456789''" by simp
  have len: "length ''0123456789'' = 10" by simp
  from assms show ?thesis
    unfolding digit_char_def using nth_eq_iff_index_eq [OF dist, of d e] len by simp
qed

lemma digit_char_in: "d < 10 \<Longrightarrow> digit_char d \<in> set ''0123456789''"
  unfolding digit_char_def by (rule nth_mem) simp

lemma toString_not_Nil: "toString n \<noteq> []"
  by (subst toString.simps) simp

lemma toString_digits: "set (toString n) \<subseteq> set ''0123456789''"
proof (induction n rule: toString.induct)
  case (1 n)
  show ?case
  proof (cases "n < 10")
    case True
    then show ?thesis using digit_char_in [of n] by (subst toString.simps) simp
  next
    case False
    have "n mod 10 < 10" by simp
    then have "digit_char (n mod 10) \<in> set ''0123456789''" by (rule digit_char_in)
    with False 1 show ?thesis by (subst toString.simps) simp
  qed
qed

lemma toString_inj: "toString n = toString m \<Longrightarrow> n = m"
proof (induction n arbitrary: m rule: toString.induct)
  case (1 n)
  show ?case
  proof (cases "n < 10")
    case n: True
    show ?thesis
    proof (cases "m < 10")
      case True
      with n 1(2) show ?thesis
        by (simp add: toString.simps [of n] toString.simps [of m] digit_char_inj)
    next
      case False
      with n 1(2) toString_not_Nil [of "m div 10"] show ?thesis
        by (simp add: toString.simps [of n] toString.simps [of m])
    qed
  next
    case n: False
    show ?thesis
    proof (cases "m < 10")
      case True
      with n 1(2) toString_not_Nil [of "n div 10"] show ?thesis
        by (simp add: toString.simps [of n] toString.simps [of m])
    next
      case False
      with n 1(2) have eq: "toString (n div 10) = toString (m div 10)"
        and d: "digit_char (n mod 10) = digit_char (m mod 10)"
        by (simp_all add: toString.simps [of n] toString.simps [of m])
      from 1(1) [OF n eq] have "n div 10 = m div 10" .
      moreover have "n mod 10 = m mod 10"
        by (rule digit_char_inj [OF _ _ d]) simp_all
      ultimately show ?thesis by (metis div_mult_mod_eq)
    qed
  qed
qed


lemma toString_no_char: "c \<notin> set ''0123456789'' \<Longrightarrow> c \<notin> set (toString n)"
  using toString_digits [of n] by blast

lemma qa_item_id_inj:
  assumes "''qa-item-'' @ toString t @ ''-'' @ toString i = ''qa-item-'' @ toString t' @ ''-'' @ toString j"
  shows "i = j"
proof -
  have a: "CHR ''-'' \<notin> set (toString t)" by (rule toString_no_char) simp
  have b: "CHR ''-'' \<notin> set (toString i)" by (rule toString_no_char) simp
  from assms have "toString t @ CHR ''-'' # toString i = toString t' @ CHR ''-'' # toString j"
    by simp
  then have "toString t = toString t' \<and> toString i = toString j"
    by (rule iffD1 [OF append_Cons_eq_iff [OF a b]])
  then have "toString i = toString j" ..
  then show ?thesis by (rule toString_inj)
qed

lemma length_make_qaItems: "length (make_qaItems now k rs) = length rs"
  by (simp add: make_qaItems_def)

lemma nth_make_qaItems:
  "i < length rs \<Longrightarrow> make_qaItems now k rs ! i = make_qaItem (now (k + i)) i (rs ! i)"
  by (simp add: make_qaItems_def nth_enumerate_eq)

lemma distinct_make_qaItems: "distinct (map qa_id (make_qaItems now k rs))"
proof -
  have "qa_id (make_qaItems now k rs ! i) \<noteq> qa_id (make_qaItems now k rs ! j)"
    if "i < length rs" "j < length rs" "i \<noteq> j" for i j
  proof
    assume "qa_id (make_qaItems now k rs ! i) = qa_id (make_qaItems now k rs ! j)"
    with that have "''qa-item-'' @ toString (now (k + i)) @ ''-'' @ toString i
        = ''qa-item-'' @ toString (now (k + j)) @ ''-'' @ toString j"
      by (simp only: nth_make_qaItems make_qaItem_def qaItem.simps)
    then have "i = j" by (rule qa_item_id_inj)
    with that show False by simp
  qed
  then show ?thesis
    by (simp add: distinct_conv_nth length_make_qaItems)
qed

lemma qa_parent_id_fresh: "''qa-'' @ toString t \<notin> qa_id ` set (make_qaItems now k rs)"
proof
  assume "''qa-'' @ toString t \<in> qa_id ` set (make_qaItems now k rs)"
  then obtain x where x: "x \<in> set (make_qaItems now k rs)" "''qa-'' @ toString t = qa_id x"
    by blast
  from x(1) obtain i where "i < length (make_qaItems now k rs)" "make_qaItems now k rs ! i = x"
    unfolding in_set_conv_nth by blast
  with x(2) have "i < length rs" "''qa-'' @ toString t = qa_id (make_qaItems now k rs ! i)"
    by (simp_all add: length_make_qaItems)
  then have "toString t = ''item-'' @ toString (now (k + i)) @ ''-'' @ toString i"
    by (simp add: nth_make_qaItems make_qaItem_def)
  then have "CHR ''i'' \<in> set (toString t)" by simp
  moreover have "CHR ''i'' \<notin> set (toString t)" by (rule toString_no_char) simp
  ultimately show False by simp
qed


section \<open>sendMessage\<close>

lemmas sendMessage_defs = sendMessage_def try_catch_finally_def sendMessage_try_def
  sendMessage_catch_def append_message_def axios_post_def console_error_def 
  chat_error_message_def assistant_reply_def plain_message_def Let_def

text \<open>
  C1 does not hold of the code when the chat request is answered with the body \<open>null\<close>.
  The reads of the body sit in the updater given to \<open>setMessages\<close>, which React runs
  outside the \<open>try\<close> block: it throws there, the \<open>catch\<close> block with the fallback
  message does not run, and the log ends with the user message. The sibling operations
  read the body inside their \<open>try\<close> block and do answer a \<open>null\<close> body with their
  fallback.
\<close>

theorem sendMessage_null_body_no_reply:
  "messages (snd (sendMessage (Inr None) (\<lambda>k. 5) ((init_state ''Hello'')\<lparr>input := ''hi''\<rparr>)))
     = [plain_message ''Hello'' False, plain_message ''hi'' True] \<and>
   render_error (snd (sendMessage (Inr None) (\<lambda>k. 5) ((init_state ''Hello'')\<lparr>input := ''hi''\<rparr>)))
     = Some TypeError"
  by (simp add: sendMessage_defs init_state_def trim_def isWhiteSpace_def)

text \<open>
  For every other outcome the property holds. When the input is not empty after
  trimming and the request is rejected or answered with an object, \<open>sendMessage\<close>
  appends exactly one user message (the trimmed input) and then exactly one assistant
  message; it leaves \<open>isProcessing\<close> false, and no exception leaves it.
\<close>

theorem sendMessage_user_then_assistant:
  assumes "trim (input st) \<noteq> []" and "post \<noteq> Inr None"
  shows "\<exists>reply.
           fst (sendMessage post now st) = None \<and>
           messages (snd (sendMessage post now st)) =
             messages st @ [plain_message (trim (input st)) True, reply] \<and>
           m_isUser (plain_message (trim (input st)) True) \<and> \<not> m_isUser reply \<and>
           isProcessing (snd (sendMessage post now st)) = False"
proof (cases post)
  case (Inl e)
  with assms(1) show ?thesis
    by (simp add: sendMessage_defs)
next
  case (Inr body)
  with assms(2) obtain d where "body = Some d" by (cases body) simp_all
  with Inr assms(1) show ?thesis
    by (simp add: sendMessage_defs)
qed

theorem sendMessage_user_then_assistant_witness:
  "trim (input ((init_state ''Hello'')\<lparr>input := '' What is the project status? ''\<rparr>)) \<noteq> [] \<and>
   (Inr (Some \<lparr>c_response = Some ''On track'', c_context = Some []\<rparr>) :: chat_data outcome) \<noteq> Inr None \<and>
   (\<exists>reply.
      fst (sendMessage (Inr (Some \<lparr>c_response = Some ''On track'', c_context = Some []\<rparr>)) (\<lambda>k. 1700000000000 + k)
             ((init_state ''Hello'')\<lparr>input := '' What is the project status? ''\<rparr>)) = None \<and>
      messages (snd (sendMessage (Inr (Some \<lparr>c_response = Some ''On track'', c_context = Some []\<rparr>)) (\<lambda>k. 1700000000000 + k)
             ((init_state ''Hello'')\<lparr>input := '' What is the project status? ''\<rparr>))) =
        [plain_message ''Hello'' False, plain_message ''What is the project status?'' True, reply] \<and>
      \<not> m_isUser reply \<and>
      isProcessing (snd (sendMessage (Inr (Some \<lparr>c_response = Some ''On track'', c_context = Some []\<rparr>)) (\<lambda>k. 1700000000000 + k)
             ((init_state ''Hello'')\<lparr>input := '' What is the project status? ''\<rparr>))) = False)"
proof -
  have t: "trim '' What is the project status? '' = ''What is the project status?''"
    by (simp add: trim_def isWhiteSpace_def)
  have h: "trim (input ((init_state ''Hello'')\<lparr>input := '' What is the project status? ''\<rparr>)) \<noteq> []"
    by (simp add: t)
  have h2: "(Inr (Some \<lparr>c_response = Some ''On track'', c_context = Some []\<rparr>) :: chat_data outcome) \<noteq> Inr None"
    by simp
  show ?thesis
    using h sendMessage_user_then_assistant [OF h h2, of "\<lambda>k. 1700000000000 + k"]
    by (auto simp: t init_state_def)
qed

text \<open>
  C2, as stated, fails: the assistant message appended when the chat request is rejected
  carries an id. Here the clock reads 5 and the id is \<open>''5''\<close>.
\<close>

theorem sendMessage_failure_message_has_id:
  "m_id (last (messages (snd (sendMessage (Inl NetworkError) (\<lambda>k. 5)
      ((init_state ''Hello'')\<lparr>input := ''hi''\<rparr>))))) = Some ''5''"
  by (simp add: sendMessage_defs init_state_def trim_def isWhiteSpace_def toString.simps digit_char_def)

text \<open>
  C2, amended. When the chat request fails (axios rejects: a transport error or a
  non-success response), the assistant message appended has exactly the text
  "Sorry, there was an error processing your request." and carries an id, the decimal
  print of a reading of the clock, so that the renderer puts the feedback control under
  it; it is not a user message and has no question and no context.
\<close>

theorem sendMessage_failure_message:
  assumes "trim (input st) \<noteq> []"
  shows "messages (snd (sendMessage (Inl e) now st)) =
           messages st @
             [plain_message (trim (input st)) True,
              \<lparr>m_id = Some (toString (now 0)),
               m_text = Some ''Sorry, there was an error processing your request.'',
               m_isUser = False, m_question = None, m_context = None,
               m_isQAContainer = False, m_qaItems = None,
               m_showDownload = False, m_downloadOnly = False\<rparr>] \<and>
         feedback_eligible (last (messages (snd (sendMessage (Inl e) now st))))"
  using assms toString_not_Nil [of "now 0"]
  by (simp add: sendMessage_defs feedback_eligible_def truthy_def)

theorem sendMessage_failure_message_witness:
  "trim (input ((init_state ''Hello'')\<lparr>input := ''hi''\<rparr>)) \<noteq> [] \<and>
   messages (snd (sendMessage (Inl (ServerError 500)) (\<lambda>k. 5) ((init_state ''Hello'')\<lparr>input := ''hi''\<rparr>))) =
     [plain_message ''Hello'' False, plain_message ''hi'' True,
      \<lparr>m_id = Some ''5'',
       m_text = Some ''Sorry, there was an error processing your request.'',
       m_isUser = False, m_question = None, m_context = None,
       m_isQAContainer = False, m_qaItems = None,
       m_showDownload = False, m_downloadOnly = False\<rparr>] \<and>
   feedback_eligible (last (messages (snd (sendMessage (Inl (ServerError 500)) (\<lambda>k. 5)
       ((init_state ''Hello'')\<lparr>input := ''hi''\<rparr>)))))"
proof -
  have t: "trim ''hi'' = ''hi''" by (simp add: trim_def isWhiteSpace_def)
  have h: "trim (input ((init_state ''Hello'')\<lparr>input := ''hi''\<rparr>)) \<noteq> []" by (simp add: t)
  have five: "toString 5 = ''5''" by (simp add: toString.simps digit_char_def)
  note r = sendMessage_failure_message [OF h, of "ServerError 500" "\<lambda>k. 5"]
  have a: "messages (snd (sendMessage (Inl (ServerError 500)) (\<lambda>k. 5) ((init_state ''Hello'')\<lparr>input := ''hi''\<rparr>))) =
     [plain_message ''Hello'' False, plain_message ''hi'' True,
      \<lparr>m_id = Some ''5'',
       m_text = Some ''Sorry, there was an error processing your request.'',
       m_isUser = False, m_question = None, m_context = None,
       m_isQAContainer = False, m_qaItems = None,
       m_showDownload = False, m_downloadOnly = False\<rparr>]"
    by (subst r [THEN conjunct1]) (simp add: t five init_state_def)
  from h a r [THEN conjunct2] show ?thesis by (intro conjI)
qed

section \<open>uploadFile\<close>

lemmas uploadFile_defs = uploadFile_def try_catch_finally_def uploadFile_try_def
  uploadFile_catch_def append_message_def axios_post_def console_error_def  Let_def

text \<open>
  C3. For a successful \<open>/upload\<close> response with a list of N pairs, \<open>uploadFile\<close>
  appends four messages and nothing else: the status message, the confirmation, one QA
  container and, after it, one download message, the only download-only message and the
  container the only container among the four. The container carries an id and exactly N
  items, item i with the question and the answer of pair i, so that the log gains exactly
  these N items; the items' ids are pairwise distinct and differ from the container's
  id, whatever the clock reads.
\<close>

theorem uploadFile_success_items:
  assumes "selectedFile st = Some f" and "u_status d = Some ''success''"
    and "u_responses d = Some rs"
  shows "\<exists>status confirmation container download items pid.
           fst (uploadFile (Inr (Some d)) now st) = None \<and>
           messages (snd (uploadFile (Inr (Some d)) now st)) =
             messages st @ [status, confirmation, container, download] \<and>
           m_isQAContainer container \<and> m_qaItems container = Some items \<and>
           m_id container = Some pid \<and>
           length items = length rs \<and>
           map qa_question items = map u_question rs \<and>
           map qa_answer items = map u_response rs \<and>
           distinct (map qa_id items) \<and> pid \<notin> set (map qa_id items) \<and>
           all_qaItems (messages (snd (uploadFile (Inr (Some d)) now st))) =
             all_qaItems (messages st) @ items \<and>
           filter m_downloadOnly [status, confirmation, container, download] = [download] \<and>
           filter m_isQAContainer [status, confirmation, container, download] = [container]"
proof -
  let ?items = "make_qaItems now 2 rs"
  let ?c = "qa_message (now 1) ?items"
  let ?new = "[upload_status_message f, file_success_message (now 0), ?c, download_message]"
  have m1: "fst (uploadFile (Inr (Some d)) now st) = None"
    using assms by (simp add: uploadFile_defs)
  have m2: "messages (snd (uploadFile (Inr (Some d)) now st)) = messages st @ ?new"
    using assms by (simp add: uploadFile_defs)
  have c1: "m_isQAContainer ?c" and c2: "m_qaItems ?c = Some ?items"
    and c3: "m_id ?c = Some (''qa-'' @ toString (now 1))"
    by (simp_all add: qa_message_def)
  have q: "map qa_question ?items = map u_question rs"
    by (rule nth_equalityI) (simp_all add: length_make_qaItems nth_make_qaItems make_qaItem_def)
  have a: "map qa_answer ?items = map u_response rs"
    by (rule nth_equalityI) (simp_all add: length_make_qaItems nth_make_qaItems make_qaItem_def)
  have fresh: "''qa-'' @ toString (now 1) \<notin> set (map qa_id ?items)"
    using qa_parent_id_fresh [of "now 1" now 2 rs] by simp
  have dl: "filter m_downloadOnly ?new = [download_message]"
    by (simp add: upload_status_message_def file_success_message_def qa_message_def
        download_message_def plain_message_def)
  have qc: "filter m_isQAContainer ?new = [?c]"
    by (simp add: upload_status_message_def file_success_message_def qa_message_def
        download_message_def plain_message_def)
  have "all_qaItems (messages st @ ?new) = all_qaItems (messages st) @ ?items"
    by (simp add: all_qaItems_def upload_status_message_def file_success_message_def
        qa_message_def download_message_def plain_message_def)
  then have al: "all_qaItems (messages (snd (uploadFile (Inr (Some d)) now st))) =
      all_qaItems (messages st) @ ?items"
    by (simp only: m2)
  have all: "fst (uploadFile (Inr (Some d)) now st) = None \<and>
           messages (snd (uploadFile (Inr (Some d)) now st)) = messages st @ ?new \<and>
           m_isQAContainer ?c \<and> m_qaItems ?c = Some ?items \<and>
           m_id ?c = Some (''qa-'' @ toString (now 1)) \<and>
           length ?items = length rs \<and>
           map qa_question ?items = map u_question rs \<and>
           map qa_answer ?items = map u_response rs \<and>
           distinct (map qa_id ?items) \<and> ''qa-'' @ toString (now 1) \<notin> set (map qa_id ?items) \<and>
           all_qaItems (messages (snd (uploadFile (Inr (Some d)) now st))) =
             all_qaItems (messages st) @ ?items \<and>
           filter m_downloadOnly ?new = [download_message] \<and>
           filter m_isQAContainer ?new = [?c]"
    by (intro conjI) (rule m1 m2 c1 c2 c3 length_make_qaItems q a distinct_make_qaItems fresh al dl qc)+
  show ?thesis
    apply (rule exI [of _ "upload_status_message f"])
    apply (rule exI [of _ "file_success_message (now 0)"])
    apply (rule exI [of _ ?c])
    apply (rule exI [of _ download_message])
    apply (rule exI [of _ ?items])
    apply (rule exI [of _ "''qa-'' @ toString (now 1)"])
    apply (rule all)
    done
qed

theorem uploadFile_success_items_witness:
  "selectedFile ((init_state ''Hello'')\<lparr>selectedFile := Some \<lparr>file_name = ''budget.xlsx''\<rparr>\<rparr>)
     = Some \<lparr>file_name = ''budget.xlsx''\<rparr> \<and>
   u_status \<lparr>u_status = Some ''success'',
             u_responses = Some [\<lparr>u_question = Some ''Q1 spend?'', u_response = Some ''$10k'', u_source = Some ''sheet1''\<rparr>,
                                 \<lparr>u_question = Some ''Q2 spend?'', u_response = Some ''$12k'', u_source = None\<rparr>],
             u_message = None\<rparr> = Some ''success'' \<and>
   u_responses \<lparr>u_status = Some ''success'',
             u_responses = Some [\<lparr>u_question = Some ''Q1 spend?'', u_response = Some ''$10k'', u_source = Some ''sheet1''\<rparr>,
                                 \<lparr>u_question = Some ''Q2 spend?'', u_response = Some ''$12k'', u_source = None\<rparr>],
             u_message = None\<rparr>
     = Some [\<lparr>u_question = Some ''Q1 spend?'', u_response = Some ''$10k'', u_source = Some ''sheet1''\<rparr>,
             \<lparr>u_question = Some ''Q2 spend?'', u_response = Some ''$12k'', u_source = None\<rparr>] \<and>
   length (messages (snd (uploadFile
     (Inr (Some \<lparr>u_status = Some ''success'',
             u_responses = Some [\<lparr>u_question = Some ''Q1 spend?'', u_response = Some ''$10k'', u_source = Some ''sheet1''\<rparr>,
                                 \<lparr>u_question = Some ''Q2 spend?'', u_response = Some ''$12k'', u_source = None\<rparr>],
             u_message = None\<rparr>))
     (\<lambda>k. 1700000000000)
     ((init_state ''Hello'')\<lparr>selectedFile := Some \<lparr>file_name = ''budget.xlsx''\<rparr>\<rparr>)))) = 5 \<and>
   map qa_question (all_qaItems (messages (snd (uploadFile
     (Inr (Some \<lparr>u_status = Some ''success'',
             u_responses = Some [\<lparr>u_question = Some ''Q1 spend?'', u_response = Some ''$10k'', u_source = Some ''sheet1''\<rparr>,
                                 \<lparr>u_question = Some ''Q2 spend?'', u_response = Some ''$12k'', u_source = None\<rparr>],
             u_message = None\<rparr>))
     (\<lambda>k. 1700000000000)
     ((init_state ''Hello'')\<lparr>selectedFile := Some \<lparr>file_name = ''budget.xlsx''\<rparr>\<rparr>)))))
     = [Some ''Q1 spend?'', Some ''Q2 spend?''] \<and>
   distinct (map qa_id (all_qaItems (messages (snd (uploadFile
     (Inr (Some \<lparr>u_status = Some ''success'',
             u_responses = Some [\<lparr>u_question = Some ''Q1 spend?'', u_response = Some ''$10k'', u_source = Some ''sheet1''\<rparr>,
                                 \<lparr>u_question = Some ''Q2 spend?'', u_response = Some ''$12k'', u_source = None\<rparr>],
             u_message = None\<rparr>))
     (\<lambda>k. 1700000000000)
     ((init_state ''Hello'')\<lparr>selectedFile := Some \<lparr>file_name = ''budget.xlsx''\<rparr>\<rparr>))))))"
proof -
  let ?rs = "[\<lparr>u_question = Some ''Q1 spend?'', u_response = Some ''$10k'', u_source = Some ''sheet1''\<rparr>,
              \<lparr>u_question = Some ''Q2 spend?'', u_response = Some ''$12k'', u_source = None\<rparr>]"
  let ?d = "\<lparr>u_status = Some ''success'', u_responses = Some ?rs, u_message = None\<rparr>"
  let ?f = "\<lparr>file_name = ''budget.xlsx''\<rparr>"
  let ?st = "(init_state ''Hello'')\<lparr>selectedFile := Some ?f\<rparr>"
  let ?st' = "snd (uploadFile (Inr (Some ?d)) (\<lambda>k. 1700000000000) ?st)"
  have h1: "selectedFile ?st = Some ?f" by simp
  have h2: "u_status ?d = Some ''success''" by simp
  have h3: "u_responses ?d = Some ?rs" by simp
  have l: "length (messages ?st) = 1" by (simp add: init_state_def)
  have e: "all_qaItems (messages ?st) = []"
    by (simp add: init_state_def all_qaItems_def plain_message_def)
  from uploadFile_success_items [OF h1 h2 h3, of "\<lambda>k. 1700000000000"]
  obtain status confirmation container download items pid where
    m: "messages ?st' = messages ?st @ [status, confirmation, container, download]"
    and q: "map qa_question items = map u_question ?rs"
    and d: "distinct (map qa_id items)"
    and al: "all_qaItems (messages ?st') = all_qaItems (messages ?st) @ items"
    by (elim exE conjE)
  have a: "length (messages ?st') = 5"
    by (simp only: m length_append l) simp
  have al': "all_qaItems (messages ?st') = items"
    by (simp only: al e append_Nil)
  have b: "map qa_question (all_qaItems (messages ?st')) = [Some ''Q1 spend?'', Some ''Q2 spend?'']"
    by (simp only: al' q) simp
  have c: "distinct (map qa_id (all_qaItems (messages ?st')))"
    by (simp only: al' d)
  from h1 h2 h3 a b c show ?thesis by (intro conjI)
qed

text \<open>
  C5, as stated, fails: when the upload request is rejected the selected file is still
  selected after the attempt.
\<close>

theorem uploadFile_failure_keeps_file:
  "selectedFile (snd (uploadFile (Inl NetworkError) (\<lambda>k. 0)
      ((init_state ''Hello'')\<lparr>selectedFile := Some \<lparr>file_name = ''budget.xlsx''\<rparr>\<rparr>)))
     = Some \<lparr>file_name = ''budget.xlsx''\<rparr>"
  by (simp add: uploadFile_defs init_state_def)

text \<open>
  C5, amended. After an \<open>uploadFile\<close> attempt whose \<open>try\<close> block runs to its end (an
  object body with status success and a response list, or with any other status) the
  selected file is cleared; after an attempt that throws (the request is rejected, the
  body is \<open>null\<close>, or a success body has no response list) the file stays selected.
\<close>

theorem uploadFile_selectedFile:
  assumes "selectedFile st = Some f"
  shows "selectedFile (snd (uploadFile post now st)) =
           (case post of
              Inl e \<Rightarrow> Some f
            | Inr None \<Rightarrow> Some f
            | Inr (Some d) \<Rightarrow>
                if u_status d = Some ''success'' \<and> u_responses d = None then Some f else None)"
  using assms by (simp add: uploadFile_defs split: sum.split option.split)

theorem uploadFile_selectedFile_witness:
  "selectedFile ((init_state ''Hello'')\<lparr>selectedFile := Some \<lparr>file_name = ''budget.xlsx''\<rparr>\<rparr>)
     = Some \<lparr>file_name = ''budget.xlsx''\<rparr> \<and>
   selectedFile (snd (uploadFile
       (Inr (Some \<lparr>u_status = Some ''error'', u_responses = None, u_message = Some ''No questions column''\<rparr>))
       (\<lambda>k. 0)
       ((init_state ''Hello'')\<lparr>selectedFile := Some \<lparr>file_name = ''budget.xlsx''\<rparr>\<rparr>))) = None"
proof -
  let ?st = "(init_state ''Hello'')\<lparr>selectedFile := Some \<lparr>file_name = ''budget.xlsx''\<rparr>\<rparr>"
  have h: "selectedFile ?st = Some \<lparr>file_name = ''budget.xlsx''\<rparr>" by simp
  show ?thesis
    using h uploadFile_selectedFile [OF h,
        of "Inr (Some \<lparr>u_status = Some ''error'', u_responses = None, u_message = Some ''No questions column''\<rparr>)" "\<lambda>k. 0"]
    by simp
qed

section \<open>Rejecting a file by its name\<close>

lemmas handleFile_defs = handleFile_def showNotification_def

text \<open>
  C4, as stated, fails for the React component: \<open>uploadFile\<close> never looks at the name.
  With \<open>report.pdf\<close> selected it issues the \<open>/upload\<close> request and the message list
  changes.
\<close>

theorem uploadFile_pdf_is_uploaded:
  "net_log (snd (uploadFile (Inl (ServerError 400)) (\<lambda>k. 0)
      ((init_state ''Hello'')\<lparr>selectedFile := Some \<lparr>file_name = ''report.pdf''\<rparr>\<rparr>)))
     = [PostUpload ''report.pdf''] \<and>
   messages (snd (uploadFile (Inl (ServerError 400)) (\<lambda>k. 0)
      ((init_state ''Hello'')\<lparr>selectedFile := Some \<lparr>file_name = ''report.pdf''\<rparr>\<rparr>)))
     \<noteq> messages ((init_state ''Hello'')\<lparr>selectedFile := Some \<lparr>file_name = ''report.pdf''\<rparr>\<rparr>)"
  by (simp add: uploadFile_defs init_state_def)

text \<open>
  C4, amended. On the static page, \<open>handleFile\<close> rejects every file whose name does not
  end in \<open>.xlsx\<close> or \<open>.xls\<close> (letters compared without case), which covers every
  name without an accepted extension such as \<open>report.pdf\<close>: no request is made, the
  chat container is unchanged, and the one notification shown reads exactly
  "Please upload an Excel file (.xlsx or .xls)". The React component's \<open>uploadFile\<close>
  makes no such test: for the same file, once selected, it appends the status message and
  posts the file.
\<close>

theorem handleFile_rejects_non_excel:
  assumes "\<not> matches_excel (file_name f)" and "selectedFile st = Some f"
  shows "handleFile emsg f post pg =
           (None, pg\<lparr>notifications := notifications pg @
                        [(''Please upload an Excel file (.xlsx or .xls)'', ''error'')]\<rparr>) \<and>
         fetch_log (snd (handleFile emsg f post pg)) = fetch_log pg \<and>
         chatContainer (snd (handleFile emsg f post pg)) = chatContainer pg \<and>
         net_log (snd (uploadFile post now st)) = net_log st @ [PostUpload (file_name f)] \<and>
         take (Suc (length (messages st))) (messages (snd (uploadFile post now st))) =
           messages st @ [upload_status_message f]"
proof -
  have u: "net_log (snd (uploadFile post now st)) = net_log st @ [PostUpload (file_name f)] \<and>
         take (Suc (length (messages st))) (messages (snd (uploadFile post now st))) =
           messages st @ [upload_status_message f]"
    using assms(2)
    by (simp add: uploadFile_defs split: sum.split option.split)
  from assms(1) have "handleFile emsg f post pg =
           (None, pg\<lparr>notifications := notifications pg @
                        [(''Please upload an Excel file (.xlsx or .xls)'', ''error'')]\<rparr>)"
    by (simp add: handleFile_defs)
  with u show ?thesis by simp
qed

theorem handleFile_rejects_non_excel_witness:
  "\<not> matches_excel (file_name \<lparr>file_name = ''report.pdf''\<rparr>) \<and>
   selectedFile ((init_state ''Hello'')\<lparr>selectedFile := Some \<lparr>file_name = ''report.pdf''\<rparr>\<rparr>)
     = Some \<lparr>file_name = ''report.pdf''\<rparr> \<and>
   handleFile (\<lambda>e. ''Failed to fetch'') \<lparr>file_name = ''report.pdf''\<rparr> (Inl NetworkError)
       \<lparr>chatContainer = [], notifications = [], progressHidden = True, progressWidth = ''0%'',
        fetch_log = []\<rparr> =
     (None, \<lparr>chatContainer = [],
       notifications = [(''Please upload an Excel file (.xlsx or .xls)'', ''error'')],
       progressHidden = True, progressWidth = ''0%'', fetch_log = []\<rparr>) \<and>
   net_log (snd (uploadFile (Inl NetworkError) (\<lambda>k. 0)
       ((init_state ''Hello'')\<lparr>selectedFile := Some \<lparr>file_name = ''report.pdf''\<rparr>\<rparr>)))
     = [PostUpload ''report.pdf'']"
proof -
  let ?f = "\<lparr>file_name = ''report.pdf''\<rparr>"
  let ?st = "(init_state ''Hello'')\<lparr>selectedFile := Some ?f\<rparr>"
  let ?pg = "\<lparr>chatContainer = [], notifications = [], progressHidden = True,
              progressWidth = ''0%'', fetch_log = []\<rparr>"
  have h1: "\<not> matches_excel (file_name ?f)"
    by (simp add: matches_excel_def ends_with_ci_def toLowerCase_def)
  have h2: "selectedFile ?st = Some ?f" by simp
  note r = handleFile_rejects_non_excel [OF h1 h2, of "\<lambda>e. ''Failed to fetch''" "Inl NetworkError" ?pg "\<lambda>k. 0"]
  have a: "handleFile (\<lambda>e. ''Failed to fetch'') ?f (Inl NetworkError) ?pg =
     (None, \<lparr>chatContainer = [],
       notifications = [(''Please upload an Excel file (.xlsx or .xls)'', ''error'')],
       progressHidden = True, progressWidth = ''0%'', fetch_log = []\<rparr>)"
    by (subst r [THEN conjunct1]) simp
  have b: "net_log (snd (uploadFile (Inl NetworkError) (\<lambda>k. 0) ?st)) = [PostUpload ''report.pdf'']"
    by (subst r [THEN conjunct2, THEN conjunct2, THEN conjunct2, THEN conjunct1])
      (simp add: init_state_def)
  from h1 h2 a b show ?thesis by (intro conjI)
qed

section \<open>FeedbackPanel\<close>

text \<open>
  C6. When the edited answer is empty after trimming, \<open>handleSubmit\<close> does not call
  \<open>onFeedbackSubmit\<close>: no request is made, the feedback visibility map (and the rest of
  the component's state) is unchanged, and the panel's error text is set.
\<close>

theorem handleSubmit_empty_answer:
  assumes "trim (p_editedAnswer p) = []"
  shows "handleSubmit mid post (p, st) =
           (p\<lparr>p_error := ''Please enter at least one word before submitting.''\<rparr>, st) \<and>
         net_log (snd (handleSubmit mid post (p, st))) = net_log st \<and>
         feedbackVisibility (snd (handleSubmit mid post (p, st))) = feedbackVisibility st"
  using assms by (simp add: handleSubmit_def)

theorem handleSubmit_empty_answer_witness:
  "trim (p_editedAnswer \<lparr>p_editedAnswer = ''   '', p_error = []\<rparr>) = [] \<and>
   handleSubmit ''qa-item-5-0'' (Inr (Some \<lparr>fr_status = Some ''success''\<rparr>))
       (\<lparr>p_editedAnswer = ''   '', p_error = []\<rparr>, init_state ''Hello'') =
     (\<lparr>p_editedAnswer = ''   '', p_error = ''Please enter at least one word before submitting.''\<rparr>,
      init_state ''Hello'')"
proof -
  have h: "trim (p_editedAnswer \<lparr>p_editedAnswer = ''   '', p_error = []\<rparr>) = []"
    by (simp add: trim_def isWhiteSpace_def)
  show ?thesis
    using h handleSubmit_empty_answer [OF h, of "''qa-item-5-0''"
        "Inr (Some \<lparr>fr_status = Some ''success''\<rparr>)" "init_state ''Hello''"]
    by simp
qed


section \<open>handleFeedbackSubmit\<close>

text \<open>
  The loop over the containers finds the first item with the id among all items of the
  log, read in order.
\<close>

lemma find_append_cases:
  "find P (xs @ ys) = (case find P xs of None \<Rightarrow> find P ys | Some x \<Rightarrow> Some x)"
  by (induction xs) simp_all

lemma qa_loop_find:
  "qa_loop msgs mid acc =
     (case find (\<lambda>item. qa_id item = mid) (all_qaItems msgs) of
        Some qaItem \<Rightarrow> (qa_question qaItem, qa_answer qaItem)
      | None \<Rightarrow> acc)"
proof (induction msgs)
  case Nil
  show ?case by (simp add: all_qaItems_def)
next
  case (Cons m msgs)
  have split: "all_qaItems (m # msgs) =
      (if m_isQAContainer m then (case m_qaItems m of Some items \<Rightarrow> items | None \<Rightarrow> []) else [])
        @ all_qaItems msgs"
    by (simp add: all_qaItems_def)
  show ?case
    by (simp add: split Cons.IH find_append_cases split: option.split)
qed

lemmas handleFeedbackSubmit_defs = handleFeedbackSubmit_def try_catch_finally_def
  handleFeedbackSubmit_try_def handleFeedbackSubmit_catch_def resolve_original_def
  make_completeData_def alert_def console_error_def axios_post_def Let_def

lemma resolve_original_flat_first:
  assumes "find (\<lambda>m. m_id m = Some mid) msgs = Some m"
  shows "resolve_original msgs mid =
           (Some m, or_else (m_question m) (or_else (m_text m) (Some [])),
            or_else (m_text m) (Some []))"
  using assms by (simp add: resolve_original_def)

text \<open>
  C8. When the id is the id of no message of the flat list and of no item of any QA
  container, \<open>handleFeedbackSubmit\<close> stops with the local error (the console line
  "Could not find message or QA item for feedback" and the alert): no request is made and
  nothing else changes.
\<close>

theorem handleFeedbackSubmit_unresolved:
  assumes "find (\<lambda>m. m_id m = Some (messageId fd)) (messages st) = None"
    and "find (\<lambda>item. qa_id item = messageId fd) (all_qaItems (messages st)) = None"
  shows "handleFeedbackSubmit fd post st =
           (None, st\<lparr>console_errors := console_errors st @
                        [''Could not find message or QA item for feedback''],
                      alerts := alerts st @ [''Error processing feedback. Please try again.'']\<rparr>) \<and>
         net_log (snd (handleFeedbackSubmit fd post st)) = net_log st \<and>
         feedbackVisibility (snd (handleFeedbackSubmit fd post st)) = feedbackVisibility st"
  using assms by (simp add: handleFeedbackSubmit_defs qa_loop_find truthy_def)

theorem handleFeedbackSubmit_unresolved_witness:
  "find (\<lambda>m. m_id m = Some (messageId \<lparr>messageId = ''qa-item-5-7'', feedbackType = ''correction'',
           editedAnswer = ''Better'', relevance = 5, accuracy = 5\<rparr>))
     (messages (init_state ''Hello'')) = None \<and>
   find (\<lambda>item. qa_id item = messageId \<lparr>messageId = ''qa-item-5-7'', feedbackType = ''correction'',
           editedAnswer = ''Better'', relevance = 5, accuracy = 5\<rparr>)
     (all_qaItems (messages (init_state ''Hello''))) = None \<and>
   net_log (snd (handleFeedbackSubmit
       \<lparr>messageId = ''qa-item-5-7'', feedbackType = ''correction'',
        editedAnswer = ''Better'', relevance = 5, accuracy = 5\<rparr>
       (Inr (Some \<lparr>fr_status = Some ''success''\<rparr>)) (init_state ''Hello''))) = [] \<and>
   alerts (snd (handleFeedbackSubmit
       \<lparr>messageId = ''qa-item-5-7'', feedbackType = ''correction'',
        editedAnswer = ''Better'', relevance = 5, accuracy = 5\<rparr>
       (Inr (Some \<lparr>fr_status = Some ''success''\<rparr>)) (init_state ''Hello'')))
     = [''Error processing feedback. Please try again.'']"
proof -
  let ?fd = "\<lparr>messageId = ''qa-item-5-7'', feedbackType = ''correction'',
              editedAnswer = ''Better'', relevance = 5, accuracy = 5\<rparr>"
  let ?st = "init_state ''Hello''"
  have h1: "find (\<lambda>m. m_id m = Some (messageId ?fd)) (messages ?st) = None"
    by (simp add: init_state_def plain_message_def)
  have h2: "find (\<lambda>item. qa_id item = messageId ?fd) (all_qaItems (messages ?st)) = None"
    by (simp add: init_state_def plain_message_def all_qaItems_def)
  note r = handleFeedbackSubmit_unresolved [OF h1 h2, of "Inr (Some \<lparr>fr_status = Some ''success''\<rparr>)"]
  have a: "net_log (snd (handleFeedbackSubmit ?fd (Inr (Some \<lparr>fr_status = Some ''success''\<rparr>)) ?st)) = []"
    by (subst r [THEN conjunct2, THEN conjunct1]) (simp add: init_state_def)
  have b: "alerts (snd (handleFeedbackSubmit ?fd (Inr (Some \<lparr>fr_status = Some ''success''\<rparr>)) ?st))
      = [''Error processing feedback. Please try again.'']"
    by (subst r [THEN conjunct1]) (simp add: init_state_def)
  from h1 h2 a b show ?thesis by (intro conjI)
qed

text \<open>
  C7 does not hold of the code for an item whose question and answer are both empty. The
  item is found, but the guard that detects an unresolved id reads the two texts, takes
  the item for unresolved and stops without a request. The state here is the one
  \<open>uploadFile\<close> builds from a response with one such pair: the item with the id is in
  the log, and after the submission the only request made is still the upload.
\<close>

theorem handleFeedbackSubmit_empty_qaItem_no_request:
  "find (\<lambda>item. qa_id item = ''qa-item-5-0'')
     (all_qaItems (messages (snd (uploadFile
        (Inr (Some \<lparr>u_status = Some ''success'',
                      u_responses = Some [\<lparr>u_question = Some [], u_response = Some [], u_source = None\<rparr>],
                      u_message = None\<rparr>))
        (\<lambda>k. 5) ((init_state ''Hello'')\<lparr>selectedFile := Some \<lparr>file_name = ''budget.xlsx''\<rparr>\<rparr>)))))
     = Some \<lparr>qa_id = ''qa-item-5-0'', qa_question = Some [], qa_answer = Some [],
             qa_source = ''unknown''\<rparr> \<and>
   net_log (snd (handleFeedbackSubmit
       \<lparr>messageId = ''qa-item-5-0'', feedbackType = ''correction'',
        editedAnswer = ''Better'', relevance = 5, accuracy = 5\<rparr>
       (Inr (Some \<lparr>fr_status = Some ''success''\<rparr>))
       (snd (uploadFile
        (Inr (Some \<lparr>u_status = Some ''success'',
                      u_responses = Some [\<lparr>u_question = Some [], u_response = Some [], u_source = None\<rparr>],
                      u_message = None\<rparr>))
        (\<lambda>k. 5) ((init_state ''Hello'')\<lparr>selectedFile := Some \<lparr>file_name = ''budget.xlsx''\<rparr>\<rparr>)))))
     = [PostUpload ''budget.xlsx'']"
proof -
  have five: "toString 5 = ''5''" and zero: "toString 0 = ''0''"
    by (simp_all add: toString.simps digit_char_def)
  show ?thesis
    by (simp add: uploadFile_defs handleFeedbackSubmit_defs init_state_def all_qaItems_def
        make_qaItems_def make_qaItem_def qa_message_def file_success_message_def
        upload_status_message_def download_message_def plain_message_def or_else_def truthy_def
        five zero)
qed

text \<open>
  For an item with a non-empty question or answer the resolution works as intended. When
  the id is the id of no message of the flat list (which is searched first) and
  \<open>item\<close> is the first item with the id among the QA containers' items, and the item's
  question or answer is not empty, then \<open>handleFeedbackSubmit\<close> posts the feedback
  with \<open>original_query\<close> the item's question and \<open>original_answer\<close> the item's
  answer, whatever the outcome of the request; and when the response has status success
  it sets the visibility of exactly this id to false, leaving every other entry as it was.
\<close>

theorem handleFeedbackSubmit_qaItem:
  assumes "find (\<lambda>m. m_id m = Some (messageId fd)) (messages st) = None"
    and "find (\<lambda>item. qa_id item = messageId fd) (all_qaItems (messages st)) = Some item"
    and "truthy (qa_question item) \<or> truthy (qa_answer item)"
    and "fr_status r = Some ''success''"
  shows "net_log (snd (handleFeedbackSubmit fd post st)) =
           net_log st @
             [PostFeedback
                \<lparr>messageId = messageId fd, feedbackType = feedbackType fd,
                 editedAnswer = editedAnswer fd, relevance = relevance fd, accuracy = accuracy fd,
                 original_query = qa_question item, original_answer = qa_answer item,
                 context_used = []\<rparr>] \<and>
         feedbackVisibility (snd (handleFeedbackSubmit fd (Inr (Some r)) st)) =
           (feedbackVisibility st)(messageId fd \<mapsto> False)"
proof -
  have ext: "feedbackData.extend fd (completeData.fields q a c) =
      \<lparr>messageId = messageId fd, feedbackType = feedbackType fd,
       editedAnswer = editedAnswer fd, relevance = relevance fd, accuracy = accuracy fd,
       original_query = q, original_answer = a, context_used = c\<rparr>" for q a c
    by (cases fd) (simp add: feedbackData.defs completeData.defs)
  have n: "net_log (snd (handleFeedbackSubmit fd post st)) =
           net_log st @
             [PostFeedback
                \<lparr>messageId = messageId fd, feedbackType = feedbackType fd,
                 editedAnswer = editedAnswer fd, relevance = relevance fd, accuracy = accuracy fd,
                 original_query = qa_question item, original_answer = qa_answer item,
                 context_used = []\<rparr>]"
    using assms(1,2,3)
    by (cases post) (auto simp: handleFeedbackSubmit_defs qa_loop_find ext split: option.split)
  have v: "feedbackVisibility (snd (handleFeedbackSubmit fd (Inr (Some r)) st)) =
           (feedbackVisibility st)(messageId fd \<mapsto> False)"
    using assms
    by (auto simp: handleFeedbackSubmit_defs qa_loop_find)
  from n v show ?thesis by (intro conjI)
qed

theorem handleFeedbackSubmit_qaItem_witness:
  "find (\<lambda>m. m_id m = Some (messageId \<lparr>messageId = ''qa-item-5-0'', feedbackType = ''correction'',
           editedAnswer = ''Better'', relevance = 5, accuracy = 5\<rparr>))
     (messages ((init_state ''Hello'')\<lparr>messages := [plain_message ''Hello'' False,
        qa_message 5 [\<lparr>qa_id = ''qa-item-5-0'', qa_question = Some ''Q1 spend?'',
                       qa_answer = Some ''$10k'', qa_source = ''sheet1''\<rparr>]]\<rparr>)) = None \<and>
   find (\<lambda>item. qa_id item = messageId \<lparr>messageId = ''qa-item-5-0'', feedbackType = ''correction'',
           editedAnswer = ''Better'', relevance = 5, accuracy = 5\<rparr>)
     (all_qaItems (messages ((init_state ''Hello'')\<lparr>messages := [plain_message ''Hello'' False,
        qa_message 5 [\<lparr>qa_id = ''qa-item-5-0'', qa_question = Some ''Q1 spend?'',
                       qa_answer = Some ''$10k'', qa_source = ''sheet1''\<rparr>]]\<rparr>)))
     = Some \<lparr>qa_id = ''qa-item-5-0'', qa_question = Some ''Q1 spend?'',
             qa_answer = Some ''$10k'', qa_source = ''sheet1''\<rparr> \<and>
   (truthy (qa_question \<lparr>qa_id = ''qa-item-5-0'', qa_question = Some ''Q1 spend?'',
             qa_answer = Some ''$10k'', qa_source = ''sheet1''\<rparr>) \<or>
    truthy (qa_answer \<lparr>qa_id = ''qa-item-5-0'', qa_question = Some ''Q1 spend?'',
             qa_answer = Some ''$10k'', qa_source = ''sheet1''\<rparr>)) \<and>
   fr_status \<lparr>fr_status = Some ''success''\<rparr> = Some ''success'' \<and>
   net_log (snd (handleFeedbackSubmit
       \<lparr>messageId = ''qa-item-5-0'', feedbackType = ''correction'',
        editedAnswer = ''Better'', relevance = 5, accuracy = 5\<rparr>
       (Inr (Some \<lparr>fr_status = Some ''success''\<rparr>))
       ((init_state ''Hello'')\<lparr>messages := [plain_message ''Hello'' False,
        qa_message 5 [\<lparr>qa_id = ''qa-item-5-0'', qa_question = Some ''Q1 spend?'',
                       qa_answer = Some ''$10k'', qa_source = ''sheet1''\<rparr>]]\<rparr>))) =
     [PostFeedback
        \<lparr>messageId = ''qa-item-5-0'', feedbackType = ''correction'',
         editedAnswer = ''Better'', relevance = 5, accuracy = 5,
         original_query = Some ''Q1 spend?'', original_answer = Some ''$10k'',
         context_used = []\<rparr>] \<and>
   feedbackVisibility (snd (handleFeedbackSubmit
       \<lparr>messageId = ''qa-item-5-0'', feedbackType = ''correction'',
        editedAnswer = ''Better'', relevance = 5, accuracy = 5\<rparr>
       (Inr (Some \<lparr>fr_status = Some ''success''\<rparr>))
       ((init_state ''Hello'')\<lparr>messages := [plain_message ''Hello'' False,
        qa_message 5 [\<lparr>qa_id = ''qa-item-5-0'', qa_question = Some ''Q1 spend?'',
                       qa_answer = Some ''$10k'', qa_source = ''sheet1''\<rparr>]]\<rparr>))) ''qa-item-5-0''
     = Some False"
proof -
  let ?fd = "\<lparr>messageId = ''qa-item-5-0'', feedbackType = ''correction'',
              editedAnswer = ''Better'', relevance = 5, accuracy = 5\<rparr>"
  let ?item = "\<lparr>qa_id = ''qa-item-5-0'', qa_question = Some ''Q1 spend?'',
                qa_answer = Some ''$10k'', qa_source = ''sheet1''\<rparr>"
  let ?st = "(init_state ''Hello'')\<lparr>messages := [plain_message ''Hello'' False, qa_message 5 [?item]]\<rparr>"
  let ?r = "\<lparr>fr_status = Some ''success''\<rparr>"
  have five: "toString 5 = ''5''" by (simp add: toString.simps digit_char_def)
  have h1: "find (\<lambda>m. m_id m = Some (messageId ?fd)) (messages ?st) = None"
    by (simp add: plain_message_def qa_message_def five)
  have h2: "find (\<lambda>item. qa_id item = messageId ?fd) (all_qaItems (messages ?st)) = Some ?item"
    by (simp add: plain_message_def qa_message_def all_qaItems_def)
  have h3: "truthy (qa_question ?item) \<or> truthy (qa_answer ?item)"
    by (simp add: truthy_def)
  have h4: "fr_status ?r = Some ''success''" by simp
  note r = handleFeedbackSubmit_qaItem [OF h1 h2 h3 h4, of "Inr (Some ?r)"]
  have a: "net_log (snd (handleFeedbackSubmit ?fd (Inr (Some ?r)) ?st)) =
     [PostFeedback
        \<lparr>messageId = ''qa-item-5-0'', feedbackType = ''correction'',
         editedAnswer = ''Better'', relevance = 5, accuracy = 5,
         original_query = Some ''Q1 spend?'', original_answer = Some ''$10k'',
         context_used = []\<rparr>]"
    by (subst r [THEN conjunct1]) (simp add: init_state_def)
  have b: "feedbackVisibility (snd (handleFeedbackSubmit ?fd (Inr (Some ?r)) ?st)) ''qa-item-5-0''
     = Some False"
    by (subst r [THEN conjunct2]) simp
  from h1 h2 h3 h4 a b show ?thesis by (intro conjI)
qed

text \<open>
  C10. When the id is the id of no message of the flat list, a feedback request, if one is
  made, carries the empty list as \<open>context_used\<close>.
\<close>

theorem handleFeedbackSubmit_qaItem_context:
  assumes "find (\<lambda>m. m_id m = Some (messageId fd)) (messages st) = None"
  shows "net_log (snd (handleFeedbackSubmit fd post st)) = net_log st \<or>
         (\<exists>cd. net_log (snd (handleFeedbackSubmit fd post st)) = net_log st @ [PostFeedback cd] \<and>
               context_used cd = [])"
proof -
  have ext: "context_used (feedbackData.extend fd (completeData.fields q a [])) = []" for q a
    by (cases fd) (simp add: feedbackData.defs completeData.defs)
  show ?thesis
  proof (cases "qa_loop (messages st) (messageId fd) (Some [], Some [])")
    case (Pair q a)
    with assms show ?thesis
      by (cases post) (simp_all add: handleFeedbackSubmit_defs ext split: option.split)
  qed
qed


theorem handleFeedbackSubmit_qaItem_context_witness:
  "find (\<lambda>m. m_id m = Some (messageId \<lparr>messageId = ''qa-item-5-0'', feedbackType = ''correction'',
           editedAnswer = ''Better'', relevance = 5, accuracy = 5\<rparr>))
     (messages ((init_state ''Hello'')\<lparr>messages := [plain_message ''Hello'' False,
        qa_message 5 [\<lparr>qa_id = ''qa-item-5-0'', qa_question = Some ''Q1 spend?'',
                       qa_answer = Some ''$10k'', qa_source = ''sheet1''\<rparr>]]\<rparr>)) = None \<and>
   (\<exists>cd. net_log (snd (handleFeedbackSubmit
       \<lparr>messageId = ''qa-item-5-0'', feedbackType = ''correction'',
        editedAnswer = ''Better'', relevance = 5, accuracy = 5\<rparr>
       (Inl NetworkError)
       ((init_state ''Hello'')\<lparr>messages := [plain_message ''Hello'' False,
        qa_message 5 [\<lparr>qa_id = ''qa-item-5-0'', qa_question = Some ''Q1 spend?'',
                       qa_answer = Some ''$10k'', qa_source = ''sheet1''\<rparr>]]\<rparr>))) = [PostFeedback cd] \<and>
      context_used cd = [])"
proof -
  let ?fd = "\<lparr>messageId = ''qa-item-5-0'', feedbackType = ''correction'',
              editedAnswer = ''Better'', relevance = 5, accuracy = 5\<rparr>"
  let ?item = "\<lparr>qa_id = ''qa-item-5-0'', qa_question = Some ''Q1 spend?'',
                qa_answer = Some ''$10k'', qa_source = ''sheet1''\<rparr>"
  let ?st = "(init_state ''Hello'')\<lparr>messages := [plain_message ''Hello'' False, qa_message 5 [?item]]\<rparr>"
  have five: "toString 5 = ''5''" by (simp add: toString.simps digit_char_def)
  have h1: "find (\<lambda>m. m_id m = Some (messageId ?fd)) (messages ?st) = None"
    by (simp add: plain_message_def qa_message_def five)
  have sent: "net_log (snd (handleFeedbackSubmit ?fd (Inl NetworkError) ?st)) \<noteq> net_log ?st"
    by (simp add: handleFeedbackSubmit_defs init_state_def plain_message_def qa_message_def
        truthy_def five)
  have e: "net_log ?st = []" by (simp add: init_state_def)
  from handleFeedbackSubmit_qaItem_context [OF h1, of "Inl NetworkError"] sent
  have "\<exists>cd. net_log (snd (handleFeedbackSubmit ?fd (Inl NetworkError) ?st)) = net_log ?st @ [PostFeedback cd] \<and>
      context_used cd = []"
    by blast
  then have "\<exists>cd. net_log (snd (handleFeedbackSubmit ?fd (Inl NetworkError) ?st)) = [PostFeedback cd] \<and>
      context_used cd = []"
    by (simp only: e append_Nil)
  with h1 show ?thesis by (intro conjI)
qed

section \<open>Ids across a session\<close>

text \<open>
  C9 does not hold of the code: the id of an assistant message is the print of the clock,
  so two \<open>sendMessage\<close> calls whose responses are handled at the same clock reading give
  their assistant messages the same id.
\<close>

theorem sendMessage_same_instant_same_id:
  "map m_id (messages (snd (sendMessage (Inr (Some \<lparr>c_response = Some ''Late'', c_context = None\<rparr>))
       (\<lambda>k. 1700000000000)
       ((snd (sendMessage (Inr (Some \<lparr>c_response = Some ''On track'', c_context = None\<rparr>))
                (\<lambda>k. 1700000000000) ((init_state ''Hello'')\<lparr>input := ''Status?''\<rparr>)))
          \<lparr>input := ''Deadline?''\<rparr>))))
     = [None, None, Some ''1700000000000'', None, Some ''1700000000000''] \<and>
   \<not> distinct (assigned_ids (messages (snd (sendMessage (Inr (Some \<lparr>c_response = Some ''Late'', c_context = None\<rparr>))
       (\<lambda>k. 1700000000000)
       ((snd (sendMessage (Inr (Some \<lparr>c_response = Some ''On track'', c_context = None\<rparr>))
                (\<lambda>k. 1700000000000) ((init_state ''Hello'')\<lparr>input := ''Status?''\<rparr>)))
          \<lparr>input := ''Deadline?''\<rparr>)))))"
proof -
  have t: "toString 1700000000000 = ''1700000000000''"
    by (simp add: toString.simps digit_char_def)
  have a: "trim ''Status?'' = ''Status?''" and b: "trim ''Deadline?'' = ''Deadline?''"
    by (simp_all add: trim_def isWhiteSpace_def)
  show ?thesis
    by (simp add: sendMessage_defs init_state_def assigned_ids_def t a b)
qed


end
